theory Spec2Isabelle
  imports Complex_Main
begin

section \<open>JavaScript values used by the dashboard\<close>

text \<open>
  The dashboard components (\<^verbatim>\<open>RevenueView.tsx\<close>, \<^verbatim>\<open>WinBackView\<close>, \<^verbatim>\<open>ParetoChart\<close>) are
  TypeScript. Their values are modelled as follows.
  \<^item> A string is a \<open>string\<close>; one \<open>char\<close> stands for one UTF-16 code unit below 256
    (ASCII and Latin-1), which covers every character the code inspects
    (\<open>/\<close>, space, digits, signs, the letters of \<open>beginner\<close> and \<open>ACTIVE\<close>).
  \<^item> A monetary \<open>number\<close> (\<open>TotalPayments\<close> and what is computed from it) is a \<open>rat\<close>:
    sums, differences and quotients are exact, and no value is NaN or infinite.
    Counters (\<open>RecipeCount\<close>, \<open>DistributorCount\<close>) are \<open>int\<close>.
  \<^item> The result of \<open>parseInt\<close> and a \<open>Date\<close>'s time value are \<open>int option\<close>, where
    \<open>None\<close> is NaN (an invalid date).
\<close>

subsection \<open>String.prototype.toLowerCase and String.prototype.split\<close>

definition lower_char :: "char \<Rightarrow> char" where
  "lower_char c =
     (let n = (of_char c :: nat)
      in if (65 \<le> n \<and> n \<le> 90) \<or> (192 \<le> n \<and> n \<le> 222 \<and> n \<noteq> 215)
         then char_of (n + 32) else c)"

definition toLowerCase :: "string \<Rightarrow> string" where
  "toLowerCase s = map lower_char s"

text \<open>\<open>s.split(c)\<close> for a one-character separator: never the empty array, \<open>"".split(c)\<close>
  is \<open>[""]\<close>.\<close>

fun split_str :: "char \<Rightarrow> string \<Rightarrow> string list" where
  "split_str c [] = [[]]"
| "split_str c (x # xs) =
     (if x = c then [] # split_str c xs
      else (case split_str c xs of
              [] \<Rightarrow> [[x]]
            | p # ps \<Rightarrow> (x # p) # ps))"

subsection \<open>parseInt (ECMA-262, with no radix argument)\<close>

definition is_ws :: "char \<Rightarrow> bool" where
  "is_ws c = ((of_char c :: nat) \<in> {9, 10, 11, 12, 13, 32, 160})"

definition digit_value :: "nat \<Rightarrow> char \<Rightarrow> nat option" where
  "digit_value R c =
     (let n = (of_char c :: nat);
          v = (if 48 \<le> n \<and> n \<le> 57 then Some (n - 48)
               else if 97 \<le> n \<and> n \<le> 122 then Some (n - 87)
               else if 65 \<le> n \<and> n \<le> 90 then Some (n - 55)
               else None)
      in case v of
           None \<Rightarrow> None
         | Some d \<Rightarrow> if d < R then Some d else None)"

fun leading_digits :: "nat \<Rightarrow> string \<Rightarrow> nat list" where
  "leading_digits R [] = []"
| "leading_digits R (c # cs) =
     (case digit_value R c of
        None \<Rightarrow> []
      | Some d \<Rightarrow> d # leading_digits R cs)"

fun strip_sign :: "string \<Rightarrow> int \<times> string" where
  "strip_sign [] = (1, [])"
| "strip_sign (c # cs) =
     (if c = CHR ''-'' then (- 1, cs)
      else if c = CHR ''+'' then (1, cs)
      else (1, c # cs))"

fun strip_prefix :: "string \<Rightarrow> nat \<times> string" where
  "strip_prefix (a # b # cs) =
     (if a = CHR ''0'' \<and> (b = CHR ''x'' \<or> b = CHR ''X'') then (16, cs)
      else (10, a # b # cs))"
| "strip_prefix cs = (10, cs)"

text \<open>Leading white space is skipped, then a sign, then a \<open>0x\<close> prefix selects radix 16;
  the longest run of digits is read and whatever follows it is ignored. No digit at all
  gives NaN. The integer is kept exact (a \<open>number\<close> would round it beyond \<open>2^53\<close>).\<close>

definition parseInt :: "string \<Rightarrow> int option" where
  "parseInt str =
     (case strip_sign (dropWhile is_ws str) of
        (sign, S) \<Rightarrow>
          (case strip_prefix S of
             (R, S') \<Rightarrow>
               (case leading_digits R S' of
                  [] \<Rightarrow> None
                | d # ds \<Rightarrow> Some (sign * int (foldl (\<lambda>a k. a * R + k) 0 (d # ds))))))"

subsection \<open>new Date(year, monthIndex, day)\<close>

text \<open>
  The constructor follows ECMA-262 (Date objects), with \<open>MakeDay\<close> as the V8 engine of
  Node.js and Chrome computes it: ECMA-262 leaves to the engine which years and months
  are out of range. The day numbering of ECMA-262 (days from 1 January 1970 to the
  first day of a year) is \<open>DayFromYear\<close>.
\<close>

definition msPerDay :: int where
  "msPerDay = 86400000"

definition maxTimeValue :: int where
  "maxTimeValue = 8640000000000000"

definition DayFromYear :: "int \<Rightarrow> int" where
  "DayFromYear y =
     365 * (y - 1970) + (y - 1969) div 4 - (y - 1901) div 100 + (y - 1601) div 400"

definition InLeapYear :: "int \<Rightarrow> bool" where
  "InLeapYear y = ((y mod 4 = 0 \<and> y mod 100 \<noteq> 0) \<or> y mod 400 = 0)"

text \<open>Day within the year of the first day of month \<open>mn\<close> (0 is January): the two tables
  \<open>kDayFromMonth\<close> of the engine.\<close>

definition MonthStart :: "bool \<Rightarrow> int \<Rightarrow> int" where
  "MonthStart leap mn =
     (if mn = 0 then 0
      else if mn = 1 then 31
      else (if leap then 1 else 0) +
        (if mn = 2 then 59 else if mn = 3 then 90 else if mn = 4 then 120
         else if mn = 5 then 151 else if mn = 6 then 181 else if mn = 7 then 212
         else if mn = 8 then 243 else if mn = 9 then 273 else if mn = 10 then 304
         else 334))"

definition MakeFullYear :: "int \<Rightarrow> int" where
  "MakeFullYear y = (if 0 \<le> y \<and> y \<le> 99 then 1900 + y else y)"

text \<open>The engine's integer division truncates toward zero (the divisor is positive).\<close>

definition tdiv :: "int \<Rightarrow> int \<Rightarrow> int" where
  "tdiv a b = (if 0 \<le> a then a div b else - ((- a) div b))"

definition kYearDelta :: int where
  "kYearDelta = 399999"

definition kBaseDay :: int where
  "kBaseDay =
     365 * (1970 + kYearDelta) + tdiv (1970 + kYearDelta) 4 -
     tdiv (1970 + kYearDelta) 100 + tdiv (1970 + kYearDelta) 400"

text \<open>\<open>MakeDay\<close>: NaN when the year is outside \<open>\<plusminus>1000000\<close> or the month outside
  \<open>\<plusminus>10000000\<close>; otherwise months outside 0..11 carry into the year and days outside
  the month carry into the neighbouring months. Whether the day is in the range of time
  values is left to \<open>TimeClip\<close>.\<close>

definition MakeDay :: "int \<Rightarrow> int \<Rightarrow> int \<Rightarrow> int option" where
  "MakeDay year month date =
     (if - 1000000 \<le> year \<and> year \<le> 1000000 \<and> - 10000000 \<le> month \<and> month \<le> 10000000
      then
        (let y0 = year + tdiv month 12;
             m0 = month - 12 * tdiv month 12;
             y = (if m0 < 0 then y0 - 1 else y0);
             m = (if m0 < 0 then m0 + 12 else m0);
             day_from_year =
               365 * (y + kYearDelta) + tdiv (y + kYearDelta) 4 -
               tdiv (y + kYearDelta) 100 + tdiv (y + kYearDelta) 400 - kBaseDay
         in Some (day_from_year + MonthStart (InLeapYear y) m - 1 + date))
      else None)"

definition TimeClip :: "int \<Rightarrow> int option" where
  "TimeClip t = (if \<bar>t\<bar> \<le> maxTimeValue then Some t else None)"

text \<open>The host's time zone is a parameter: \<open>tza t\<close> is the offset in milliseconds of local
  time from UTC at local time \<open>t\<close>, so that \<open>UTC(t) = t - tza t\<close>.\<close>

definition new_Date :: "(int \<Rightarrow> int) \<Rightarrow> int option \<Rightarrow> int option \<Rightarrow> int option \<Rightarrow> int option" where
  "new_Date tza year monthIndex day =
     (case (year, monthIndex, day) of
        (Some y, Some m, Some dt) \<Rightarrow>
          (case MakeDay (MakeFullYear y) m dt of
             None \<Rightarrow> None
           | Some d \<Rightarrow> TimeClip (d * msPerDay - tza (d * msPerDay)))
      | _ \<Rightarrow> None)"

subsection \<open>Array.prototype.sort with a comparator\<close>

text \<open>The sort is stable (ECMAScript 2019): an element moves in front of another only
  when the comparator is positive for the pair in their current order.\<close>

fun insert_cmp :: "('a \<Rightarrow> 'a \<Rightarrow> rat) \<Rightarrow> 'a \<Rightarrow> 'a list \<Rightarrow> 'a list" where
  "insert_cmp cmp x [] = [x]"
| "insert_cmp cmp x (y # ys) =
     (if cmp x y \<le> 0 then x # y # ys else y # insert_cmp cmp x ys)"

definition js_sort :: "('a \<Rightarrow> 'a \<Rightarrow> rat) \<Rightarrow> 'a list \<Rightarrow> 'a list" where
  "js_sort cmp xs = foldr (insert_cmp cmp) xs []"

section \<open>The user rows read by the components\<close>

text \<open>The fields of \<open>User\<close> that the components read. The declaration of \<open>User\<close> (in
  \<^verbatim>\<open>@/lib/data\<close>) is missing: the field \<open>LastActivityDate\<close>, which no component reads, is
  modelled from the spec (\<open>last_activity_date\<close>, the column \<open>Last activity date\<close> of the
  CRM export, empty when absent).\<close>

record User =
  UserID :: string
  Fullname :: string
  Company :: string
  LicenseType :: string
  Status :: string
  ExpirationDate :: string
  LastActivityDate :: string
  RecipeCount :: int
  DistributorCount :: int
  TotalPayments :: rat

text \<open>The comparator \<^verbatim>\<open>(a, b) => b.TotalPayments - a.TotalPayments\<close>.\<close>

definition byRevenueDesc :: "User \<Rightarrow> User \<Rightarrow> rat" where
  "byRevenueDesc a b = TotalPayments b - TotalPayments a"

section \<open>WinBackView\<close>

definition winBackUsers :: "User list \<Rightarrow> User list" where
  "winBackUsers data =
     (let users = filter (\<lambda>u. toLowerCase (LicenseType u) = ''beginner'' \<and> TotalPayments u > 0) data
      in js_sort byRevenueDesc users)"

definition isUpsellTarget :: "User \<Rightarrow> bool" where
  "isUpsellTarget user = (RecipeCount user > 20)"

datatype action = UpsellPro | Contact

record WinBackRow =
  rowUser :: User
  hitLimitBadge :: bool
  actionButton :: action

definition winBackRow :: "User \<Rightarrow> WinBackRow" where
  "winBackRow user =
     \<lparr>rowUser = user,
      hitLimitBadge = isUpsellTarget user,
      actionButton = (if isUpsellTarget user then UpsellPro else Contact)\<rparr>"

definition winBackRows :: "User list \<Rightarrow> WinBackRow list" where
  "winBackRows data = map winBackRow (winBackUsers data)"

section \<open>RevenueView\<close>

text \<open>\<open>isExpired\<close> reads the clock (\<open>new Date()\<close>) each time it is called. The time
  value it reads is the parameter \<open>today\<close>, the same for all the calls of one evaluation
  of the memo; \<open>tza\<close> is the time zone of the host. A date that is not valid compares
  false with every date.\<close>

definition isExpired :: "(int \<Rightarrow> int) \<Rightarrow> int \<Rightarrow> string \<Rightarrow> bool" where
  "isExpired tza today dateStr =
     (if dateStr = [] then False
      else
        (case split_str CHR ''/'' dateStr of
           [p0, p1, p2] \<Rightarrow>
             (case new_Date tza (parseInt p2) (map_option (\<lambda>m. m - 1) (parseInt p1)) (parseInt p0) of
                None \<Rightarrow> False
              | Some expDate \<Rightarrow> expDate < today)
         | _ \<Rightarrow> False))"

record RevenueAcc =
  totalPayments :: rat
  userCount :: nat
  churnRevenue :: rat
  zombieUsers :: "User list"

definition forEachUser :: "(int \<Rightarrow> int) \<Rightarrow> int \<Rightarrow> RevenueAcc \<Rightarrow> User \<Rightarrow> RevenueAcc" where
  "forEachUser tza today acc user =
     (let acc1 = acc\<lparr>totalPayments := totalPayments acc + TotalPayments user\<rparr>;
          acc2 = (if TotalPayments user > 0 then acc1\<lparr>userCount := userCount acc1 + 1\<rparr> else acc1)
      in if Status user = ''ACTIVE'' \<and> isExpired tza today (ExpirationDate user)
         then acc2\<lparr>zombieUsers := zombieUsers acc2 @ [user],
                   churnRevenue := churnRevenue acc2 + TotalPayments user\<rparr>
         else acc2)"

record RevenueMemo =
  totalARR :: rat
  arpu :: rat
  potentialChurn :: rat
  zombies :: "User list"
  topRevenueUsers :: "User list"

definition RevenueView :: "(int \<Rightarrow> int) \<Rightarrow> int \<Rightarrow> User list \<Rightarrow> RevenueMemo" where
  "RevenueView tza today data =
     (let acc = foldl (forEachUser tza today)
                  \<lparr>totalPayments = 0, userCount = 0, churnRevenue = 0, zombieUsers = []\<rparr> data
      in \<lparr>totalARR = totalPayments acc,
          arpu = (if userCount acc > 0 then totalPayments acc / of_nat (userCount acc) else 0),
          potentialChurn = churnRevenue acc,
          zombies = zombieUsers acc,
          topRevenueUsers = take 10 (js_sort byRevenueDesc data)\<rparr>)"

section \<open>ParetoChart\<close>

record ParetoRow =
  name :: string
  revenue :: rat
  cumulativePercentage :: rat
  full_name :: string

definition firstName :: "string \<Rightarrow> string" where
  "firstName s = (case split_str CHR '' '' s of [] \<Rightarrow> [] | p # ps \<Rightarrow> p)"

text \<open>The \<open>map\<close> callback adds to the variable \<open>cumulative\<close> at each element; the variable is
  the second argument here. A row exists only when some payment is positive, and then
  \<open>totalRevenue\<close> is positive: the division is never by zero.\<close>

fun top30Rows :: "rat \<Rightarrow> rat \<Rightarrow> User list \<Rightarrow> ParetoRow list" where
  "top30Rows totalRevenue cumulative [] = []"
| "top30Rows totalRevenue cumulative (u # us) =
     (let cumulative' = cumulative + TotalPayments u
      in \<lparr>name = firstName (Fullname u),
          revenue = TotalPayments u,
          cumulativePercentage = (cumulative' / totalRevenue) * 100,
          full_name = Fullname u\<rparr>
         # top30Rows totalRevenue cumulative' us)"

definition ParetoChart :: "User list \<Rightarrow> ParetoRow list" where
  "ParetoChart data =
     (let sorted = filter (\<lambda>u. TotalPayments u > 0) (js_sort byRevenueDesc data);
          totalRevenue = foldl (\<lambda>sum u. sum + TotalPayments u) 0 sorted
      in top30Rows totalRevenue 0 (take 30 sorted))"

section \<open>Example rows\<close>

definition userA :: User where
  "userA = \<lparr>UserID = ''1'', Fullname = ''Anna Alpha'', Company = ''Taverna'',
     LicenseType = ''Beginner'', Status = ''ACTIVE'', ExpirationDate = ''01/01/2020'',
     LastActivityDate = ''20/10/2026'',
     RecipeCount = 25, DistributorCount = 2, TotalPayments = 50\<rparr>"

definition userB :: User where
  "userB = \<lparr>UserID = ''2'', Fullname = ''Boris Beta'', Company = ''Bistro'',
     LicenseType = ''Professional'', Status = ''ACTIVE'', ExpirationDate = ''01/01/2030'',
     LastActivityDate = ''01/11/2026'',
     RecipeCount = 40, DistributorCount = 5, TotalPayments = 150\<rparr>"

definition userC :: User where
  "userC = \<lparr>UserID = ''3'', Fullname = ''Chloe Gamma'', Company = ''Cafe'',
     LicenseType = ''BEGINNER'', Status = ''EXPIRED'', ExpirationDate = '''',
     LastActivityDate = '''',
     RecipeCount = 15, DistributorCount = 0, TotalPayments = 0\<rparr>"

definition userD :: User where
  "userD = \<lparr>UserID = ''4'', Fullname = ''Dimitris Delta'', Company = ''Deli'',
     LicenseType = ''beginner'', Status = ''ACTIVE'', ExpirationDate = ''01/01/2020x'',
     LastActivityDate = ''15/06/2024'',
     RecipeCount = 15, DistributorCount = 1, TotalPayments = 30\<rparr>"

definition userE :: User where
  "userE = \<lparr>UserID = ''5'', Fullname = ''Eleni Epsilon'', Company = ''Estia'',
     LicenseType = ''Expert'', Status = ''ACTIVE'', ExpirationDate = ''2020-01-01'',
     LastActivityDate = ''02/11/2026'',
     RecipeCount = 80, DistributorCount = 9, TotalPayments = 99\<rparr>"

definition userF :: User where
  "userF = \<lparr>UserID = ''6'', Fullname = ''Fotis Zeta'', Company = ''Fournos'',
     LicenseType = ''Professional'', Status = ''ACTIVE'', ExpirationDate = ''01/Jan/2020'',
     LastActivityDate = ''28/10/2026'',
     RecipeCount = 12, DistributorCount = 3, TotalPayments = 45\<rparr>"



definition exampleData :: "User list" where
  "exampleData = [userA, userB, userC, userD]"

text \<open>A host on UTC, and the instant 2026-11-03T00:00:00Z as a time value.\<close>

definition tzUTC :: "int \<Rightarrow> int" where
  "tzUTC t = 0"

definition exampleToday :: int where
  "exampleToday = 1793664000000"


text \<open>A part of a date that is a decimal numeral: one or more decimal digits and nothing
  else.\<close>

definition is_decimal_digit :: "char \<Rightarrow> bool" where
  "is_decimal_digit c = (let n = (of_char c :: nat) in 48 \<le> n \<and> n \<le> 57)"

definition numericPart :: "string \<Rightarrow> bool" where
  "numericPart p = (p \<noteq> [] \<and> list_all is_decimal_digit p)"

section \<open>The components on a store of arrays\<close>

text \<open>
  The three components read one module-level array, \<open>data\<close>, and JavaScript arrays are
  objects: \<open>sort\<close> reorders the array it is called on. Here an array of users lives at
  an address of a store. \<open>[...a]\<close>, \<open>a.filter(p)\<close> and \<open>a.slice(i, j)\<close> allocate a new
  array; \<open>a.sort(cmp)\<close> overwrites the array at the address of \<open>a\<close> and returns that
  address. The user objects themselves are never assigned to.
\<close>

type_synonym addr = nat

record store =
  arrays :: "addr \<Rightarrow> User list"
  lim :: addr

definition alloc :: "User list \<Rightarrow> store \<Rightarrow> addr \<times> store" where
  "alloc xs s = (lim s, s\<lparr>arrays := (arrays s)(lim s := xs), lim := lim s + 1\<rparr>)"

definition spread :: "addr \<Rightarrow> store \<Rightarrow> addr \<times> store" where
  "spread a s = alloc (arrays s a) s"

definition filter_arr :: "(User \<Rightarrow> bool) \<Rightarrow> addr \<Rightarrow> store \<Rightarrow> addr \<times> store" where
  "filter_arr p a s = alloc (filter p (arrays s a)) s"

definition slice_arr :: "nat \<Rightarrow> nat \<Rightarrow> addr \<Rightarrow> store \<Rightarrow> addr \<times> store" where
  "slice_arr i j a s = alloc (take (j - i) (drop i (arrays s a))) s"

definition sort_arr :: "(User \<Rightarrow> User \<Rightarrow> rat) \<Rightarrow> addr \<Rightarrow> store \<Rightarrow> addr \<times> store" where
  "sort_arr cmp a s = (a, s\<lparr>arrays := (arrays s)(a := js_sort cmp (arrays s a))\<rparr>)"

text \<open>The body of each \<open>useMemo\<close>, with \<open>data\<close> at address \<open>d\<close>. The array \<open>zombieUsers\<close>
  is local to the loop and is returned by value.\<close>

definition RevenueView_memo ::
    "(int \<Rightarrow> int) \<Rightarrow> int \<Rightarrow> addr \<Rightarrow> store \<Rightarrow> RevenueMemo \<times> store" where
  "RevenueView_memo tza today d s =
     (let acc = foldl (forEachUser tza today)
                  \<lparr>totalPayments = 0, userCount = 0, churnRevenue = 0, zombieUsers = []\<rparr>
                  (arrays s d)
      in case spread d s of
           (c, s1) \<Rightarrow>
             (case sort_arr byRevenueDesc c s1 of
                (c', s2) \<Rightarrow>
                  (case slice_arr 0 10 c' s2 of
                     (t, s3) \<Rightarrow>
                       (\<lparr>totalARR = totalPayments acc,
                         arpu = (if userCount acc > 0
                                 then totalPayments acc / of_nat (userCount acc) else 0),
                         potentialChurn = churnRevenue acc,
                         zombies = zombieUsers acc,
                         topRevenueUsers = arrays s3 t\<rparr>, s3))))"

definition WinBackView_memo :: "addr \<Rightarrow> store \<Rightarrow> User list \<times> store" where
  "WinBackView_memo d s =
     (case filter_arr (\<lambda>u. toLowerCase (LicenseType u) = ''beginner'' \<and> TotalPayments u > 0) d s of
        (users, s1) \<Rightarrow>
          (case sort_arr byRevenueDesc users s1 of
             (users', s2) \<Rightarrow> (arrays s2 users', s2)))"

definition ParetoChart_memo :: "addr \<Rightarrow> store \<Rightarrow> ParetoRow list \<times> store" where
  "ParetoChart_memo d s =
     (case spread d s of
        (c, s1) \<Rightarrow>
          (case sort_arr byRevenueDesc c s1 of
             (c', s2) \<Rightarrow>
               (case filter_arr (\<lambda>u. TotalPayments u > 0) c' s2 of
                  (sorted_, s3) \<Rightarrow>
                    (let totalRevenue = foldl (\<lambda>sum u. sum + TotalPayments u) 0 (arrays s3 sorted_)
                     in case slice_arr 0 30 sorted_ s3 of
                          (t, s4) \<Rightarrow> (top30Rows totalRevenue 0 (arrays s4 t), s4)))))"

text \<open>One pass over the dashboard: the three memos, one after the other, on the same
  store.\<close>

record Dashboard =
  revenueView :: RevenueMemo
  winBackView :: "User list"
  paretoChart :: "ParetoRow list"

definition runDashboard ::
    "(int \<Rightarrow> int) \<Rightarrow> int \<Rightarrow> addr \<Rightarrow> store \<Rightarrow> Dashboard \<times> store" where
  "runDashboard tza today d s =
     (case RevenueView_memo tza today d s of
        (r, s1) \<Rightarrow>
          (case WinBackView_memo d s1 of
             (w, s2) \<Rightarrow>
               (case ParetoChart_memo d s2 of
                  (p, s3) \<Rightarrow>
                    (\<lparr>revenueView = r, winBackView = w, paretoChart = p\<rparr>, s3))))"

definition exampleStore :: store where
  "exampleStore = \<lparr>arrays = (\<lambda>a. [])(0 := exampleData), lim = 1\<rparr>"

section \<open>The reconciliation engine\<close>

text \<open>
  The identity matcher, the health classifier and the cohort aggregator belong to the
  Python side of the repository (\<^verbatim>\<open>web_dashboard.py\<close>, \<^verbatim>\<open>cohort_retention_analysis.py\<close>),
  whose code is missing. The definitions of this section follow the specification
  (sections 3 and 4) sentence by sentence.
\<close>

subsection \<open>Data model\<close>

text \<open>Modelled from the spec: the enumeration \<open>license_tier\<close> of \<open>UserRecord\<close> (section 3); the
  Python type is missing.\<close>

datatype license_tier = Beginner | Professional | Expert | UnknownTier

text \<open>Modelled from the spec: the enumeration \<open>license_status\<close> of \<open>UserRecord\<close> (section 3);
  the Python type is missing.\<close>

datatype license_status = LicenseActive | LicenseExpired | LicenseUnknown

text \<open>Modelled from the spec: the enumeration \<open>health_state\<close> of \<open>UserRecord\<close> (section 3);
  the Python type is missing.\<close>

datatype health_state = Active | Dormant | AtRisk | Unknown

text \<open>Modelled from the spec: the three segments of section 4.3; the Python type is missing.\<close>

datatype segment = BeginnerSegment | ProfessionalSegment | ExpertSegment

text \<open>Modelled from the spec: the three diagnostic reason codes of rule 1 of section 4.3; the
  Python type is missing.\<close>

datatype diagnostic = DormantAbandoned | BlindSpot | CriticalBlank

text \<open>Modelled from the spec: the enumeration of the transaction status, paid, failed or
  pending (section 3); the Python type is missing.\<close>

datatype tx_status = Paid | Failed | Pending

text \<open>Modelled from the spec: the confidence tiers certain, high and medium of the matching
  passes (section 4.2); the Python type is missing.\<close>

datatype confidence = Certain | High | Medium

text \<open>Modelled from the spec: a calendar date with no time component (section 4.1); the
  Python date type is missing.\<close>

record date =
  year :: int
  month :: int
  day :: int

text \<open>Modelled from the spec: the date of a year, a month (1 to 12) and a day; the Python
  constructor is missing.\<close>

definition mk_date :: "int \<Rightarrow> int \<Rightarrow> int \<Rightarrow> date" where
  "mk_date y m d = \<lparr>year = y, month = m, day = d\<rparr>"

text \<open>Modelled from the spec: the number of days from 1 January 1970 to a date, by which
  dates are compared and subtracted (``days-since-last-activity''); the Python date
  arithmetic is missing.\<close>

definition day_number :: "date \<Rightarrow> int" where
  "day_number d =
     DayFromYear (year d) + MonthStart (InLeapYear (year d)) (month d - 1) + (day d - 1)"


text \<open>Modelled from the spec: \<open>usage_counts\<close> of section 3, non-negative integers; the Python
  record is missing.\<close>







record usage_counts =
  recipes :: nat
  ingredients :: nat
  menus :: nat
  distributors :: nat

text \<open>Modelled from the spec: \<open>UserRecord\<close> of section 3, with the \<open>expiration_date\<close> that
  rule 3 of section 4.3 reads; the Python record is missing. Absent values are \<open>None\<close>.
  The derived \<open>health_state\<close> is the classifier's result below.\<close>

record UserRecord =
  user_id :: nat
  full_name :: string
  email :: "string option"
  company :: string
  license_tier :: license_tier
  license_status :: license_status
  expiration_date :: "date option"
  registration_date :: "date option"
  last_activity_date :: "date option"
  usage :: usage_counts
  total_payments :: rat

text \<open>Modelled from the spec: \<open>TransactionRecord\<close> of section 3; the Python record is
  missing.\<close>

record TransactionRecord =
  tx_date :: "date option"
  payer_email :: string
  payer_name_free_text :: string
  amount :: rat
  status :: tx_status
  matched_user_id :: "nat option"

subsection \<open>Segment and health classifier (section 4.3)\<close>

text \<open>Modelled from the spec: the two configurable thresholds of rules 2 and 4, in days;
  the classifier's configuration is missing.\<close>

record classifier_config =
  dormancy_threshold :: int
  stale_threshold :: int

text \<open>Modelled from the spec: segment assignment, ``derived purely from
  \<open>license_tier\<close>; three segments; anything else is Unknown-tier''; the Python function
  is missing.\<close>

definition segment_of :: "license_tier \<Rightarrow> segment option" where
  "segment_of t =
     (case t of
        Beginner \<Rightarrow> Some BeginnerSegment
      | Professional \<Rightarrow> Some ProfessionalSegment
      | Expert \<Rightarrow> Some ExpertSegment
      | UnknownTier \<Rightarrow> None)"

text \<open>Modelled from the spec: the segment-specific diagnostic of rule 1,
  ``Beginner: dormant/abandoned, Professional: blind-spot, Expert: critical-blank'';
  the Python table is missing.\<close>

definition diagnostic_of :: "segment \<Rightarrow> diagnostic" where
  "diagnostic_of sg =
     (case sg of
        BeginnerSegment \<Rightarrow> DormantAbandoned
      | ProfessionalSegment \<Rightarrow> BlindSpot
      | ExpertSegment \<Rightarrow> CriticalBlank)"

text \<open>Modelled from the spec: days since the last activity, absent when the date is absent;
  the Python computation is missing.\<close>

definition days_since_last_activity :: "date \<Rightarrow> UserRecord \<Rightarrow> int option" where
  "days_since_last_activity today u =
     map_option (\<lambda>a. day_number today - day_number a) (last_activity_date u)"

text \<open>Modelled from the spec: ``days-since-last-activity > threshold''; an absent value
  exceeds nothing. The Python comparison is missing.\<close>

definition exceeds :: "int option \<Rightarrow> int \<Rightarrow> bool" where
  "exceeds days threshold = (case days of None \<Rightarrow> False | Some n \<Rightarrow> threshold < n)"

text \<open>Modelled from the spec: the condition of rule 1, ``\<open>last_activity_date\<close> is absent
  and \<open>license_tier\<close> is known''; the Python classifier is missing.\<close>

definition rule_unknown :: "UserRecord \<Rightarrow> bool" where
  "rule_unknown u = (last_activity_date u = None \<and> segment_of (license_tier u) \<noteq> None)"

text \<open>Modelled from the spec: the condition of rule 2, ``\<open>license_status = Active\<close> and
  days-since-last-activity exceeds the dormancy threshold''; the Python classifier is
  missing.\<close>

definition rule_stale :: "classifier_config \<Rightarrow> date \<Rightarrow> UserRecord \<Rightarrow> bool" where
  "rule_stale cfg today u =
     (license_status u = LicenseActive \<and>
      exceeds (days_since_last_activity today u) (dormancy_threshold cfg))"

text \<open>Modelled from the spec: the condition of rule 3, ``\<open>license_status = Active\<close> and
  \<open>expiration_date < today\<close>''; the Python classifier is missing.\<close>

definition rule_zombie :: "date \<Rightarrow> UserRecord \<Rightarrow> bool" where
  "rule_zombie today u =
     (license_status u = LicenseActive \<and>
      (case expiration_date u of
         None \<Rightarrow> False
       | Some e \<Rightarrow> day_number e < day_number today))"

text \<open>Modelled from the spec: the condition of rule 4, ``\<open>license_status = Expired\<close> or
  activity stale beyond a longer threshold''; the Python classifier is missing.\<close>

definition rule_dormant :: "classifier_config \<Rightarrow> date \<Rightarrow> UserRecord \<Rightarrow> bool" where
  "rule_dormant cfg today u =
     (license_status u = LicenseExpired \<or>
      exceeds (days_since_last_activity today u) (stale_threshold cfg))"

text \<open>Modelled from the spec: the health rules ``in priority order'', as a table of
  conditions and states of which the first condition that holds decides; the Python
  classifier is missing.\<close>

definition health_rules ::
    "classifier_config \<Rightarrow> date \<Rightarrow> ((UserRecord \<Rightarrow> bool) \<times> health_state) list" where
  "health_rules cfg today =
     [(rule_unknown, Unknown),
      (rule_stale cfg today, AtRisk),
      (rule_zombie today, AtRisk),
      (rule_dormant cfg today, Dormant),
      (\<lambda>u. True, Active)]"

text \<open>Modelled from the spec: evaluation ``in priority order'': the state of the first rule
  whose condition holds; the Python classifier is missing.\<close>

fun first_rule :: "(('a \<Rightarrow> bool) \<times> 'b) list \<Rightarrow> 'a \<Rightarrow> 'b option" where
  "first_rule [] u = None"
| "first_rule ((c, r) # rs) u = (if c u then Some r else first_rule rs u)"

text \<open>Modelled from the spec: health state derivation, the rule table applied to a user;
  the Python classifier is missing.\<close>

definition classify :: "classifier_config \<Rightarrow> date \<Rightarrow> UserRecord \<Rightarrow> health_state option" where
  "classify cfg today u = first_rule (health_rules cfg today) u"

text \<open>Modelled from the spec: the diagnostic reason code, an output of the
  classification for the users whose health is Unknown; the Python classifier is
  missing.\<close>

definition diagnose :: "classifier_config \<Rightarrow> date \<Rightarrow> UserRecord \<Rightarrow> diagnostic option" where
  "diagnose cfg today u =
     (if classify cfg today u = Some Unknown
      then map_option diagnostic_of (segment_of (license_tier u))
      else None)"

subsection \<open>Identity matcher (section 4.2)\<close>

text \<open>Modelled from the spec: ``trimmed'': white space removed at both ends; the Python
  normaliser is missing.\<close>

definition trim :: "string \<Rightarrow> string" where
  "trim s = rev (dropWhile is_ws (rev (dropWhile is_ws s)))"

text \<open>Modelled from the spec: email normalisation, ``case/whitespace normalized'', with
  the missing-value sentinels of section 4.1 (empty, \<open>N/A\<close>, \<open>Unknown\<close>) giving the
  absent marker; the Python normaliser is missing.\<close>

definition normalize_email :: "string \<Rightarrow> string option" where
  "normalize_email raw =
     (let e = toLowerCase (trim raw)
      in if e = [] \<or> e = ''n/a'' \<or> e = ''unknown'' then None else Some e)"

text \<open>Modelled from the spec: a matcher strategy, a pure function that decides whether
  a transaction matches a user (sections 4.2 and 9); the Python matcher is missing.\<close>

type_synonym strategy = "TransactionRecord \<Rightarrow> UserRecord \<Rightarrow> bool"

text \<open>Modelled from the spec: pass 1, ``exact email match (case/whitespace normalized)''; an
  absent email matches nothing. The Python matcher is missing.\<close>

definition exact_email_match :: strategy where
  "exact_email_match tx u =
     (case normalize_email (payer_email tx) of
        None \<Rightarrow> False
      | Some e \<Rightarrow>
          (case email u of
             None \<Rightarrow> False
           | Some e' \<Rightarrow> normalize_email e' = Some e))"

text \<open>Modelled from the spec: the ordered passes with their confidence tiers. The name
  strategies of passes 2 and 3 (the honorifics, the token threshold) are not fixed by
  the specification and are parameters. The Python matcher is missing.\<close>

definition strategy_chain :: "strategy \<Rightarrow> strategy \<Rightarrow> (strategy \<times> confidence) list" where
  "strategy_chain name_match partial_match =
     [(exact_email_match, Certain), (name_match, High), (partial_match, Medium)]"

text \<open>Modelled from the spec: the outcome of matching one transaction: a user with a
  confidence tier, ambiguous at a tier, or unmatched; the Python type is missing.\<close>

datatype match_outcome = Matched nat confidence | Ambiguous confidence | Unmatched

text \<open>Modelled from the spec: the comparison of the tie-break rule, by
  \<open>last_activity_date\<close>; an absent date is older than every date. The Python matcher
  is missing.\<close>

definition at_least_as_recent :: "UserRecord \<Rightarrow> UserRecord \<Rightarrow> bool" where
  "at_least_as_recent u v =
     (case last_activity_date v of
        None \<Rightarrow> True
      | Some b \<Rightarrow>
          (case last_activity_date u of
             None \<Rightarrow> False
           | Some a \<Rightarrow> day_number b \<le> day_number a))"

text \<open>Modelled from the spec: the candidates that no other candidate beats in recency; the
  Python matcher is missing.\<close>

definition most_recent :: "UserRecord list \<Rightarrow> UserRecord list" where
  "most_recent cs = filter (\<lambda>u. list_all (at_least_as_recent u) cs) cs"

text \<open>Modelled from the spec: the tie-break rule, ``prefer the one with the more recent
  \<open>last_activity_date\<close>; if still tied, mark as ambiguous and exclude from per-user
  aggregation''; the Python matcher is missing.\<close>

definition resolve :: "confidence \<Rightarrow> UserRecord list \<Rightarrow> match_outcome" where
  "resolve tier cs =
     (case most_recent cs of
        [u] \<Rightarrow> Matched (user_id u) tier
      | _ \<Rightarrow> Ambiguous tier)"

text \<open>Modelled from the spec: ``matching proceeds in strictly ordered passes; a
  transaction is removed from further consideration as soon as a pass yields a match'',
  and pass 4, no match; the Python matcher is missing.\<close>

fun run_chain ::
    "(strategy \<times> confidence) list \<Rightarrow> UserRecord list \<Rightarrow> TransactionRecord \<Rightarrow> match_outcome" where
  "run_chain [] users tx = Unmatched"
| "run_chain ((st, tier) # rest) users tx =
     (case filter (st tx) users of
        [] \<Rightarrow> run_chain rest users tx
      | c # cs \<Rightarrow> resolve tier (c # cs))"

text \<open>Modelled from the spec: the identity matcher on one transaction, the chain of the
  three passes; the Python matcher is missing.\<close>

definition match_tx ::
    "strategy \<Rightarrow> strategy \<Rightarrow> UserRecord list \<Rightarrow> TransactionRecord \<Rightarrow> match_outcome" where
  "match_tx name_match partial_match users tx =
     run_chain (strategy_chain name_match partial_match) users tx"

text \<open>Modelled from the spec: the user id of an outcome, absent for an unmatched or an
  ambiguous transaction; the Python matcher is missing.\<close>

definition matched_id :: "match_outcome \<Rightarrow> nat option" where
  "matched_id out = (case out of Matched uid tier \<Rightarrow> Some uid | _ \<Rightarrow> None)"

text \<open>Modelled from the spec: \<open>matched_user_id\<close> is ``set by the Identity Matcher''; the
  Python matcher is missing.\<close>

definition assign_match ::
    "strategy \<Rightarrow> strategy \<Rightarrow> UserRecord list \<Rightarrow> TransactionRecord \<Rightarrow> TransactionRecord" where
  "assign_match name_match partial_match users tx =
     tx\<lparr>matched_user_id := matched_id (match_tx name_match partial_match users tx)\<rparr>"

text \<open>Modelled from the spec: the gross transaction total of the revenue reconciliation
  (section 4.5); the Python report builder is missing.\<close>

definition gross_revenue :: "TransactionRecord list \<Rightarrow> rat" where
  "gross_revenue txs = sum_list (map amount txs)"

text \<open>Modelled from the spec: the per-user total, the sum of the transactions matched to
  one user (sections 3 and 4.5); the Python report builder is missing.\<close>

definition user_total ::
    "strategy \<Rightarrow> strategy \<Rightarrow> UserRecord list \<Rightarrow> TransactionRecord list \<Rightarrow> nat \<Rightarrow> rat" where
  "user_total name_match partial_match users txs uid =
     sum_list (map amount
       (filter (\<lambda>tx. matched_user_id (assign_match name_match partial_match users tx) = Some uid)
          txs))"

subsection \<open>Cohort and retention aggregator (sections 3, 4.4 and 8)\<close>







subsection \<open>Example records\<close>

text \<open>The users A, B and C and the transactions T1 and T2 of the example scenario of the
  specification (section 8), a second CRM identity with the email of A, a name
  strategy that never matches, and a configuration with the default dormancy
  threshold.\<close>

definition crmA :: UserRecord where
  "crmA = \<lparr>user_id = 1, full_name = ''Anna Alpha'', email = Some ''a@x.com'',
     company = ''Taverna'', license_tier = Beginner, license_status = LicenseActive,
     expiration_date = None, registration_date = Some (mk_date 2024 1 15),
     last_activity_date = None,
     usage = \<lparr>recipes = 25, ingredients = 60, menus = 2, distributors = 2\<rparr>,
     total_payments = 50\<rparr>"

definition crmB :: UserRecord where
  "crmB = \<lparr>user_id = 2, full_name = ''Boris Beta'', email = Some ''b@x.com'',
     company = ''Bistro'', license_tier = Professional, license_status = LicenseActive,
     expiration_date = None, registration_date = Some (mk_date 2024 1 20),
     last_activity_date = Some (mk_date 2024 1 28),
     usage = \<lparr>recipes = 40, ingredients = 90, menus = 5, distributors = 5\<rparr>,
     total_payments = 0\<rparr>"

definition crmC :: UserRecord where
  "crmC = \<lparr>user_id = 3, full_name = ''Chloe Gamma'', email = None,
     company = ''Cafe'', license_tier = Expert, license_status = LicenseExpired,
     expiration_date = None, registration_date = None, last_activity_date = None,
     usage = \<lparr>recipes = 0, ingredients = 0, menus = 0, distributors = 0\<rparr>,
     total_payments = 0\<rparr>"

definition crmA2 :: UserRecord where
  "crmA2 = crmA\<lparr>user_id := 4, full_name := ''A. Alpha'', license_tier := Professional\<rparr>"

definition txT1 :: TransactionRecord where
  "txT1 = \<lparr>tx_date = Some (mk_date 2025 6 1), payer_email = '' A@X.com '',
     payer_name_free_text = ''ANNA ALPHA'', amount = 20, status = Paid,
     matched_user_id = None\<rparr>"

definition txT2 :: TransactionRecord where
  "txT2 = \<lparr>tx_date = Some (mk_date 2025 6 2), payer_email = ''unmatched@y.com'',
     payer_name_free_text = ''Nobody'', amount = 15, status = Paid,
     matched_user_id = None\<rparr>"

definition no_name_match :: strategy where
  "no_name_match tx u = False"

definition example_config :: classifier_config where
  "example_config = \<lparr>dormancy_threshold = 30, stale_threshold = 90\<rparr>"

definition reportDay :: date where
  "reportDay = mk_date 2026 11 3"

section \<open>Properties of the sort\<close>

lemma set_insert_cmp: "set (insert_cmp cmp x ys) = insert x (set ys)"
  by (induction ys) auto

lemma set_js_sort: "set (js_sort cmp xs) = set xs"
  by (induction xs) (simp_all add: js_sort_def set_insert_cmp)

section \<open>WinBackView: the candidate list and the upsell flag\<close>

lemma lower_examples:
  "toLowerCase ''Beginner'' = ''beginner''"
  "toLowerCase ''BEGINNER'' = ''beginner''"
  "toLowerCase ''beginner'' = ''beginner''"
  "toLowerCase ''Professional'' = ''professional''"
  by code_simp+

lemma winBackRows_AD: "winBackRows [userA, userD] = [winBackRow userA, winBackRow userD]"
  by (simp add: winBackRows_def winBackUsers_def js_sort_def byRevenueDesc_def
      userA_def userD_def lower_examples)

text \<open>
  Claim C2. A user is in the win-back candidate list exactly when the user is one of the
  rows of \<open>data\<close>, the license type is Beginner (compared in lower case, as the filter
  does) and \<open>TotalPayments\<close> is strictly positive. Hence no user of another tier and no
  Beginner with zero payments is listed.
\<close>

theorem winBack_iff:
  "u \<in> set (winBackUsers data) \<longleftrightarrow>
     u \<in> set data \<and> toLowerCase (LicenseType u) = ''beginner'' \<and> 0 < TotalPayments u"
  by (auto simp: winBackUsers_def set_js_sort)

theorem winBack_iff_witness:
  "userA \<in> set (winBackUsers [userA, userB, userC]) \<and>
   userB \<notin> set (winBackUsers [userA, userB, userC]) \<and>
   userC \<notin> set (winBackUsers [userA, userB, userC])"
  using winBack_iff [of userA "[userA, userB, userC]"]
    winBack_iff [of userB "[userA, userB, userC]"]
    winBack_iff [of userC "[userA, userB, userC]"]
  by (simp add: userA_def userB_def userC_def lower_examples)

text \<open>
  Claim C5, as stated: the flag of a listed user is set exactly when the recipe count
  exceeds a configurable ceiling. The component has no such setting. With the ceiling
  configured as 10, the listed user \<open>userD\<close>, who has 15 recipes, exceeds it; the
  component does not flag that user.
\<close>

theorem upsell_ceiling_not_configurable:
  "userD \<in> set (winBackUsers [userA, userD]) \<and>
   winBackRows [userA, userD] = [winBackRow userA, winBackRow userD] \<and>
   RecipeCount (rowUser (winBackRow userD)) = 15 \<and>
   \<not> hitLimitBadge (winBackRow userD) \<and>
   \<not> (hitLimitBadge (winBackRow userD) \<longleftrightarrow> 10 < RecipeCount (rowUser (winBackRow userD)))"
proof -
  have "map rowUser (winBackRows [userA, userD]) = [userA, userD]"
    unfolding winBackRows_AD by (simp add: winBackRow_def)
  then have "winBackUsers [userA, userD] = [userA, userD]"
    by (simp add: winBackRows_def winBackRow_def comp_def)
  then have "userD \<in> set (winBackUsers [userA, userD])"
    by simp
  moreover have "RecipeCount (rowUser (winBackRow userD)) = 15"
    by (simp add: winBackRow_def userD_def)
  moreover have "\<not> hitLimitBadge (winBackRow userD)"
    by (simp add: winBackRow_def isUpsellTarget_def userD_def)
  ultimately show ?thesis
    using winBackRows_AD by simp
qed

text \<open>
  Claim C5, amended: the rows of the win-back table are the listed users, one row for
  each and in the order of the list, and the row of a user carries the upsell flag (the
  badge, and the upsell button in place of the contact button) exactly when the user's
  recipe count strictly exceeds 20, the ceiling fixed in the component. The flag reads
  no other field: two users with the same recipe count get the same flag.
\<close>

theorem upsell_flag_fixed_ceiling:
  "map rowUser (winBackRows data) = winBackUsers data \<and>
   (\<forall>row \<in> set (winBackRows data).
      rowUser row \<in> set (winBackUsers data) \<and>
      (hitLimitBadge row \<longleftrightarrow> 20 < RecipeCount (rowUser row)) \<and>
      (actionButton row = UpsellPro \<longleftrightarrow> 20 < RecipeCount (rowUser row))) \<and>
   (\<forall>u \<in> set (winBackUsers data).
      \<exists>row \<in> set (winBackRows data).
        rowUser row = u \<and> (hitLimitBadge row \<longleftrightarrow> 20 < RecipeCount u)) \<and>
   (\<forall>u v. RecipeCount u = RecipeCount v \<longrightarrow> isUpsellTarget u = isUpsellTarget v)"
proof -
  have rows: "map rowUser (winBackRows data) = winBackUsers data"
    by (simp add: winBackRows_def winBackRow_def comp_def)
  have each: "\<forall>row \<in> set (winBackRows data).
      rowUser row \<in> set (winBackUsers data) \<and>
      (hitLimitBadge row \<longleftrightarrow> 20 < RecipeCount (rowUser row)) \<and>
      (actionButton row = UpsellPro \<longleftrightarrow> 20 < RecipeCount (rowUser row))"
    by (auto simp: winBackRows_def winBackRow_def isUpsellTarget_def)
  have every: "\<forall>u \<in> set (winBackUsers data).
      \<exists>row \<in> set (winBackRows data).
        rowUser row = u \<and> (hitLimitBadge row \<longleftrightarrow> 20 < RecipeCount u)"
    by (auto simp: winBackRows_def winBackRow_def isUpsellTarget_def)
  have indep: "\<forall>u v. RecipeCount u = RecipeCount v \<longrightarrow> isUpsellTarget u = isUpsellTarget v"
    by (simp add: isUpsellTarget_def)
  from rows each every indep show ?thesis by blast
qed

theorem upsell_flag_fixed_ceiling_witness:
  "map rowUser (winBackRows [userA, userD]) = [userA, userD] \<and>
   hitLimitBadge (winBackRow userA) \<and> \<not> hitLimitBadge (winBackRow userD) \<and>
   actionButton (winBackRow userA) = UpsellPro \<and> actionButton (winBackRow userD) = Contact"
proof -
  have m: "map rowUser (winBackRows [userA, userD]) = [userA, userD]"
    unfolding winBackRows_AD by (simp add: winBackRow_def)
  from upsell_flag_fixed_ceiling [of "[userA, userD]"]
  have "\<forall>row \<in> set [winBackRow userA, winBackRow userD].
          (hitLimitBadge row \<longleftrightarrow> 20 < RecipeCount (rowUser row)) \<and>
          (actionButton row = UpsellPro \<longleftrightarrow> 20 < RecipeCount (rowUser row))"
    unfolding winBackRows_AD by blast
  then have "hitLimitBadge (winBackRow userA) \<and> \<not> hitLimitBadge (winBackRow userD) \<and>
   actionButton (winBackRow userA) = UpsellPro \<and> actionButton (winBackRow userD) = Contact"
    by (simp add: winBackRow_def isUpsellTarget_def userA_def userD_def)
  with m show ?thesis by simp
qed



section \<open>parseInt and isExpired on malformed dates\<close>

lemma digit_value_10: "\<not> is_decimal_digit c \<Longrightarrow> digit_value 10 c = None"
  by (auto simp: digit_value_def is_decimal_digit_def Let_def)

lemma leading_digits_no_digit:
  "\<forall>c \<in> set S. \<not> is_decimal_digit c \<Longrightarrow> leading_digits 10 S = []"
  by (cases S) (simp_all add: digit_value_10)

lemma strip_sign_subset: "strip_sign S = (sg, S') \<Longrightarrow> set S' \<subseteq> set S"
  by (cases S) (auto split: if_splits)

lemma strip_prefix_no_digit:
  assumes nd: "\<forall>c \<in> set S. \<not> is_decimal_digit c"
  shows "strip_prefix S = (10, S)"
proof (cases S)
  case Nil
  then show ?thesis by simp
next
  case (Cons a T)
  have "is_decimal_digit CHR ''0''"
    by (simp add: is_decimal_digit_def)
  with nd Cons have "a \<noteq> CHR ''0''" by auto
  with Cons show ?thesis by (cases T) simp_all
qed

text \<open>A part without any decimal digit is one from which \<open>parseInt\<close> reads no integer.\<close>

lemma parseInt_no_digit:
  assumes "\<forall>c \<in> set p. \<not> is_decimal_digit c"
  shows "parseInt p = None"
proof -
  obtain sg S where ss: "strip_sign (dropWhile is_ws p) = (sg, S)"
    by (cases "strip_sign (dropWhile is_ws p)")
  have "set S \<subseteq> set p"
    using strip_sign_subset [OF ss] set_dropWhileD by fastforce
  with assms have nd: "\<forall>c \<in> set S. \<not> is_decimal_digit c" by auto
  show ?thesis
    by (simp add: parseInt_def ss strip_prefix_no_digit [OF nd] leading_digits_no_digit [OF nd])
qed

lemma isExpired_empty: "\<not> isExpired tza today []"
  by (simp add: isExpired_def)

lemma isExpired_parts:
  "length (split_str CHR ''/'' dateStr) \<noteq> 3 \<Longrightarrow> \<not> isExpired tza today dateStr"
  by (auto simp: isExpired_def split: list.splits)

lemma isExpired_NaN:
  "p \<in> set (split_str CHR ''/'' dateStr) \<Longrightarrow> parseInt p = None \<Longrightarrow>
   \<not> isExpired tza today dateStr"
  by (auto simp: isExpired_def new_Date_def split: list.splits option.splits)

lemma isExpired_examples:
  "isExpired tzUTC exampleToday ''01/01/2020''"
  "\<not> isExpired tzUTC exampleToday ''01/01/2030''"
  "isExpired tzUTC exampleToday ''01/01/2020x''"
  by code_simp+

section \<open>RevenueView: what the loop over the users computes\<close>

lemma foldl_totalPayments:
  "totalPayments (foldl (forEachUser tza today) acc data) =
     totalPayments acc + sum_list (map TotalPayments data)"
  by (induction data arbitrary: acc) (simp_all add: forEachUser_def Let_def)

lemma foldl_userCount:
  "userCount (foldl (forEachUser tza today) acc data) =
     userCount acc + length (filter (\<lambda>u. 0 < TotalPayments u) data)"
  by (induction data arbitrary: acc) (simp_all add: forEachUser_def Let_def)

lemma foldl_zombieUsers:
  "zombieUsers (foldl (forEachUser tza today) acc data) =
     zombieUsers acc @
     filter (\<lambda>u. Status u = ''ACTIVE'' \<and> isExpired tza today (ExpirationDate u)) data"
  by (induction data arbitrary: acc) (simp_all add: forEachUser_def Let_def)

lemma foldl_churnRevenue:
  "churnRevenue (foldl (forEachUser tza today) acc data) =
     churnRevenue acc +
     sum_list (map TotalPayments
       (filter (\<lambda>u. Status u = ''ACTIVE'' \<and> isExpired tza today (ExpirationDate u)) data))"
  by (induction data arbitrary: acc) (simp_all add: forEachUser_def Let_def)

lemma zombies_eq:
  "zombies (RevenueView tza today data) =
     filter (\<lambda>u. Status u = ''ACTIVE'' \<and> isExpired tza today (ExpirationDate u)) data"
  by (simp add: RevenueView_def Let_def foldl_zombieUsers)

lemma potentialChurn_eq:
  "potentialChurn (RevenueView tza today data) =
     sum_list (map TotalPayments
       (filter (\<lambda>u. Status u = ''ACTIVE'' \<and> isExpired tza today (ExpirationDate u)) data))"
  by (simp add: RevenueView_def Let_def foldl_churnRevenue)

section \<open>isExpired on dates of the calendar\<close>




































text \<open>
  Claim C9. ARPU is the sum of \<open>TotalPayments\<close> over all users divided by the number of
  users whose \<open>TotalPayments\<close> is strictly positive, and it is 0 when there is no such
  user.
\<close>

theorem arpu_paying_users:
  "arpu (RevenueView tza today data) =
     (if length (filter (\<lambda>u. 0 < TotalPayments u) data) = 0 then 0
      else sum_list (map TotalPayments data) /
           of_nat (length (filter (\<lambda>u. 0 < TotalPayments u) data)))"
  by (simp add: RevenueView_def Let_def foldl_totalPayments foldl_userCount)

theorem arpu_paying_users_witness:
  "arpu (RevenueView tzUTC exampleToday exampleData) = 230 / 3 \<and>
   arpu (RevenueView tzUTC exampleToday [userC]) = 0"
  using arpu_paying_users [of tzUTC exampleToday exampleData]
    arpu_paying_users [of tzUTC exampleToday "[userC]"]
  by (simp add: exampleData_def userA_def userB_def userC_def userD_def)

text \<open>
  Claim C8, as stated: a user whose expiration date has a non-numeric part is never in
  the zombie list. The part \<open>2020x\<close> of the date of \<open>userD\<close> is not a numeral, yet
  \<open>parseInt\<close> reads 2020 from it: the date counts as 1 January 2020, the user is listed
  and the user's payments are in the subtotal.
\<close>

theorem nonnumeric_part_listed:
  "split_str CHR ''/'' (ExpirationDate userD) = [''01'', ''01'', ''2020x''] \<and>
   \<not> numericPart ''2020x'' \<and>
   isExpired tzUTC exampleToday (ExpirationDate userD) \<and>
   zombies (RevenueView tzUTC exampleToday [userD]) = [userD] \<and>
   potentialChurn (RevenueView tzUTC exampleToday [userD]) = 30"
proof -
  have "split_str CHR ''/'' ''01/01/2020x'' = [''01'', ''01'', ''2020x'']"
    by code_simp
  moreover have "\<not> numericPart ''2020x''"
    by code_simp
  ultimately show ?thesis
    by (simp add: zombies_eq potentialChurn_eq userD_def isExpired_examples)
qed

text \<open>
  Claim C8, amended. \<open>isExpired\<close> is a total function to the booleans (no operation in
  it can throw). It is false when the date is empty, when it does not split at \<open>/\<close>
  into exactly three parts, and when \<open>parseInt\<close> reads no integer from one of the parts,
  that is when the part does not start, after white space, an optional sign and an
  optional \<open>0x\<close>, with a digit (by \<open>parseInt_no_digit\<close>, any part without a decimal
  digit is such a part). Such a user is never in the zombie list, whatever the
  \<open>Status\<close>, and adds nothing to the potential-churn subtotal.
\<close>

theorem isExpired_fails_closed:
  assumes "ExpirationDate u = [] \<or>
           length (split_str CHR ''/'' (ExpirationDate u)) \<noteq> 3 \<or>
           (\<exists>p \<in> set (split_str CHR ''/'' (ExpirationDate u)). parseInt p = None)"
  shows "\<not> isExpired tza today (ExpirationDate u) \<and>
         u \<notin> set (zombies (RevenueView tza today data)) \<and>
         potentialChurn (RevenueView tza today (xs @ u # ys)) =
           potentialChurn (RevenueView tza today (xs @ ys))"
proof -
  from assms have "\<not> isExpired tza today (ExpirationDate u)"
    using isExpired_empty [of tza today] isExpired_parts isExpired_NaN by metis
  then show ?thesis
    by (simp add: zombies_eq potentialChurn_eq)
qed

theorem isExpired_fails_closed_witness:
  "length (split_str CHR ''/'' (ExpirationDate userE)) \<noteq> 3 \<and>
   parseInt ''Jan'' = None \<and>
   ExpirationDate userC = [] \<and>
   \<not> isExpired tzUTC exampleToday (ExpirationDate userE) \<and>
   \<not> isExpired tzUTC exampleToday (ExpirationDate userF) \<and>
   \<not> isExpired tzUTC exampleToday (ExpirationDate userC) \<and>
   userE \<notin> set (zombies (RevenueView tzUTC exampleToday [userA, userE, userF])) \<and>
   userF \<notin> set (zombies (RevenueView tzUTC exampleToday [userA, userE, userF])) \<and>
   potentialChurn (RevenueView tzUTC exampleToday ([userA] @ userE # [userF])) =
     potentialChurn (RevenueView tzUTC exampleToday ([userA] @ [userF]))"
proof -
  have e: "length (split_str CHR ''/'' (ExpirationDate userE)) \<noteq> 3"
    unfolding userE_def by code_simp
  have j: "parseInt ''Jan'' = None"
    by (rule parseInt_no_digit) (simp add: is_decimal_digit_def)
  have "split_str CHR ''/'' (ExpirationDate userF) = [''01'', ''Jan'', ''2020'']"
    unfolding userF_def by code_simp
  with j have f: "\<exists>p \<in> set (split_str CHR ''/'' (ExpirationDate userF)). parseInt p = None"
    by simp
  have c: "ExpirationDate userC = []"
    by (simp add: userC_def)
  show ?thesis
    using isExpired_fails_closed [of userE tzUTC exampleToday "[userA, userE, userF]" "[userA]" "[userF]"]
      isExpired_fails_closed [of userF tzUTC exampleToday "[userA, userE, userF]" "[userA, userE]" "[]"]
      isExpired_fails_closed [of userC tzUTC exampleToday "[]" "[]" "[]"]
      e f c j
    by simp
qed

section \<open>ParetoChart: the cumulative percentages\<close>










section \<open>Running the dashboard twice\<close>

text \<open>On a store where \<open>data\<close> is allocated, each memo returns the value of the
  corresponding function of the array \<open>data\<close> and leaves that array as it was: every
  \<open>sort\<close> is applied to a fresh copy.\<close>

lemma RevenueView_memo_pure:
  assumes "d < lim s"
  shows "fst (RevenueView_memo tza today d s) = RevenueView tza today (arrays s d) \<and>
         arrays (snd (RevenueView_memo tza today d s)) d = arrays s d \<and>
         lim s \<le> lim (snd (RevenueView_memo tza today d s))"
  using assms
  by (simp add: RevenueView_memo_def RevenueView_def spread_def sort_arr_def slice_arr_def
      alloc_def Let_def)

lemma WinBackView_memo_pure:
  assumes "d < lim s"
  shows "fst (WinBackView_memo d s) = winBackUsers (arrays s d) \<and>
         arrays (snd (WinBackView_memo d s)) d = arrays s d \<and>
         lim s \<le> lim (snd (WinBackView_memo d s))"
  using assms
  by (simp add: WinBackView_memo_def winBackUsers_def filter_arr_def sort_arr_def alloc_def Let_def)

lemma ParetoChart_memo_pure:
  assumes "d < lim s"
  shows "fst (ParetoChart_memo d s) = ParetoChart (arrays s d) \<and>
         arrays (snd (ParetoChart_memo d s)) d = arrays s d \<and>
         lim s \<le> lim (snd (ParetoChart_memo d s))"
  using assms
  by (simp add: ParetoChart_memo_def ParetoChart_def spread_def filter_arr_def sort_arr_def
      slice_arr_def alloc_def Let_def)

lemma runDashboard_pure:
  assumes "d < lim s"
  shows "fst (runDashboard tza today d s) =
           \<lparr>revenueView = RevenueView tza today (arrays s d),
            winBackView = winBackUsers (arrays s d),
            paretoChart = ParetoChart (arrays s d)\<rparr> \<and>
         arrays (snd (runDashboard tza today d s)) d = arrays s d \<and>
         lim s \<le> lim (snd (runDashboard tza today d s))"
proof -
  obtain r s1 where r: "RevenueView_memo tza today d s = (r, s1)"
    by (cases "RevenueView_memo tza today d s")
  obtain w s2 where w: "WinBackView_memo d s1 = (w, s2)"
    by (cases "WinBackView_memo d s1")
  obtain p s3 where p: "ParetoChart_memo d s2 = (p, s3)"
    by (cases "ParetoChart_memo d s2")
  from RevenueView_memo_pure [OF assms, of tza today] r
  have r': "r = RevenueView tza today (arrays s d)" "arrays s1 d = arrays s d" "lim s \<le> lim s1"
    by simp_all
  with assms have d1: "d < lim s1" by simp
  from WinBackView_memo_pure [OF d1] w r'
  have w': "w = winBackUsers (arrays s d)" "arrays s2 d = arrays s d" "lim s \<le> lim s2"
    by simp_all
  with assms have d2: "d < lim s2" by simp
  from ParetoChart_memo_pure [OF d2] p w'
  have p': "p = ParetoChart (arrays s d)" "arrays s3 d = arrays s d" "lim s \<le> lim s3"
    by simp_all
  show ?thesis
    by (simp add: runDashboard_def r w p r' w' p')
qed

text \<open>
  Claim C4. For a fixed dataset and a fixed current date, a second run of the
  dashboard's computations, started in the store that the first run leaves behind,
  yields the same figures and lists as the first. The outputs of a run are the values
  of the functions \<open>RevenueView\<close>, \<open>winBackUsers\<close> and \<open>ParetoChart\<close> at the array
  \<open>data\<close> and the date, and a run leaves the array \<open>data\<close> unchanged.
\<close>

theorem rerun_same_outputs:
  assumes "d < lim s"
  shows "fst (runDashboard tza today d (snd (runDashboard tza today d s))) =
           fst (runDashboard tza today d s) \<and>
         arrays (snd (runDashboard tza today d s)) d = arrays s d \<and>
         fst (runDashboard tza today d s) =
           \<lparr>revenueView = RevenueView tza today (arrays s d),
            winBackView = winBackUsers (arrays s d),
            paretoChart = ParetoChart (arrays s d)\<rparr>"
proof -
  let ?s' = "snd (runDashboard tza today d s)"
  from runDashboard_pure [OF assms, of tza today]
  have one: "fst (runDashboard tza today d s) =
           \<lparr>revenueView = RevenueView tza today (arrays s d),
            winBackView = winBackUsers (arrays s d),
            paretoChart = ParetoChart (arrays s d)\<rparr>"
    and same: "arrays ?s' d = arrays s d" and "lim s \<le> lim ?s'"
    by simp_all
  with assms have "d < lim ?s'" by simp
  from runDashboard_pure [OF this, of tza today] same one show ?thesis
    by simp
qed

theorem rerun_same_outputs_witness:
  "(0::nat) < lim exampleStore \<and>
   fst (runDashboard tzUTC exampleToday 0 (snd (runDashboard tzUTC exampleToday 0 exampleStore))) =
     fst (runDashboard tzUTC exampleToday 0 exampleStore) \<and>
   arrays (snd (runDashboard tzUTC exampleToday 0 exampleStore)) 0 = exampleData"
  using rerun_same_outputs [of 0 exampleStore tzUTC exampleToday]
  by (simp add: exampleStore_def)

section \<open>Health classification\<close>

lemma classify_cases:
  "classify cfg today u =
     Some (if rule_unknown u then Unknown
           else if rule_stale cfg today u then AtRisk
           else if rule_zombie today u then AtRisk
           else if rule_dormant cfg today u then Dormant
           else Active)"
  by (simp add: classify_def health_rules_def)

text \<open>
  Claim C6. The rule table assigns every user record exactly one health state. For a
  user assigned Unknown the segment is known and the diagnostic reason code is the one of
  the segment (Beginner: dormant/abandoned, Professional: blind-spot, Expert:
  critical-blank); two users classified Unknown with the same segment get the same
  reason code, whatever their other fields, the configuration and the day.
\<close>

theorem health_total_and_diagnostic:
  "(\<exists>!h. classify cfg today u = Some h) \<and>
   (classify cfg today u = Some Unknown \<longrightarrow>
      (\<exists>sg. segment_of (license_tier u) = Some sg \<and>
            diagnose cfg today u = Some (diagnostic_of sg))) \<and>
   (classify cfg today u = Some Unknown \<and> classify cfg' today' v = Some Unknown \<and>
    segment_of (license_tier u) = segment_of (license_tier v) \<longrightarrow>
      diagnose cfg today u = diagnose cfg' today' v) \<and>
   diagnostic_of BeginnerSegment = DormantAbandoned \<and>
   diagnostic_of ProfessionalSegment = BlindSpot \<and>
   diagnostic_of ExpertSegment = CriticalBlank"
  by (auto simp: classify_cases diagnose_def rule_unknown_def diagnostic_of_def)

theorem health_total_and_diagnostic_witness:
  "classify example_config reportDay crmA = Some Unknown \<and>
   diagnose example_config reportDay crmA = Some DormantAbandoned \<and>
   classify example_config reportDay crmA2 = Some Unknown \<and>
   diagnose example_config reportDay crmA2 = Some BlindSpot \<and>
   classify example_config reportDay crmC = Some Unknown \<and>
   diagnose example_config reportDay crmC = Some CriticalBlank \<and>
   classify example_config reportDay crmB = Some AtRisk \<and>
   diagnose example_config reportDay crmB = None"
proof -
  have u: "classify example_config reportDay crmA = Some Unknown"
    "classify example_config reportDay crmA2 = Some Unknown"
    "classify example_config reportDay crmC = Some Unknown"
    by (simp_all add: classify_cases rule_unknown_def segment_of_def crmA_def crmA2_def crmC_def)
  have t: "segment_of (license_tier crmA) = Some BeginnerSegment"
    "segment_of (license_tier crmA2) = Some ProfessionalSegment"
    "segment_of (license_tier crmC) = Some ExpertSegment"
    by (simp_all add: segment_of_def crmA_def crmA2_def crmC_def)
  have b: "classify example_config reportDay crmB = Some AtRisk"
    unfolding classify_cases by code_simp
  then have nb: "diagnose example_config reportDay crmB = None"
    by (simp add: diagnose_def)
  show ?thesis
    using health_total_and_diagnostic [of example_config reportDay crmA example_config reportDay crmA]
      health_total_and_diagnostic [of example_config reportDay crmA2 example_config reportDay crmA2]
      health_total_and_diagnostic [of example_config reportDay crmC example_config reportDay crmC]
      u t b nb
    by simp
qed

section \<open>Identity matching and the revenue totals\<close>

lemma most_recent_single: "most_recent cs = [u] \<Longrightarrow> cs \<noteq> []"
  by (auto simp: most_recent_def)

text \<open>A single candidate is its own most recent member.\<close>

lemma most_recent_singleton: "most_recent [u] = [u]"
  by (simp add: most_recent_def at_least_as_recent_def split: option.splits)

lemma match_exact:
  assumes "most_recent (filter (exact_email_match tx) users) = [u]"
  shows "match_tx nm pm users tx = Matched (user_id u) Certain"
proof -
  from assms have "filter (exact_email_match tx) users \<noteq> []"
    by (rule most_recent_single)
  then obtain c cs where "filter (exact_email_match tx) users = c # cs"
    by (cases "filter (exact_email_match tx) users") auto
  with assms show ?thesis
    by (simp add: match_tx_def strategy_chain_def resolve_def)
qed

lemma match_none:
  assumes "\<forall>u \<in> set users. \<not> exact_email_match tx u \<and> \<not> nm tx u \<and> \<not> pm tx u"
  shows "match_tx nm pm users tx = Unmatched"
proof -
  from assms have "filter (exact_email_match tx) users = []" "filter (nm tx) users = []"
    "filter (pm tx) users = []"
    by (simp_all add: filter_empty_conv)
  then show ?thesis
    by (simp add: match_tx_def strategy_chain_def)
qed

lemma email_examples:
  "normalize_email '' A@X.com '' = Some ''a@x.com''"
  "normalize_email ''a@x.com'' = Some ''a@x.com''"
  "normalize_email ''b@x.com'' = Some ''b@x.com''"
  "normalize_email ''unmatched@y.com'' = Some ''unmatched@y.com''"
  by code_simp+

lemma exact_T1:
  "exact_email_match txT1 crmA" "exact_email_match txT1 crmA2"
  "\<not> exact_email_match txT1 crmB" "\<not> exact_email_match txT1 crmC"
  by (simp_all add: exact_email_match_def txT1_def crmA_def crmA2_def crmB_def crmC_def
      email_examples)

lemma exact_T2:
  "\<not> exact_email_match txT2 crmA" "\<not> exact_email_match txT2 crmA2"
  "\<not> exact_email_match txT2 crmB" "\<not> exact_email_match txT2 crmC"
  by (simp_all add: exact_email_match_def txT2_def crmA_def crmA2_def crmB_def crmC_def
      email_examples)

text \<open>
  Claim C3, as stated: every transaction with an exact email match to some user record
  gets a \<open>matched_user_id\<close> and counts toward that user's total. Emails are not unique:
  the transaction T1 matches the email of two CRM identities, neither of which has a
  more recent activity than the other. By the tie-break rule T1 is ambiguous; its
  \<open>matched_user_id\<close> is absent and it counts toward neither user's total.
\<close>

theorem ambiguous_email_not_matched:
  "crmA \<in> set [crmA, crmA2, crmB] \<and>
   exact_email_match txT1 crmA \<and>
   match_tx no_name_match no_name_match [crmA, crmA2, crmB] txT1 = Ambiguous Certain \<and>
   matched_user_id (assign_match no_name_match no_name_match [crmA, crmA2, crmB] txT1) = None \<and>
   user_total no_name_match no_name_match [crmA, crmA2, crmB] [txT1] (user_id crmA) = 0 \<and>
   user_total no_name_match no_name_match [crmA, crmA2, crmB] [txT1] (user_id crmA2) = 0 \<and>
   gross_revenue [txT1] = 20"
proof -
  have "at_least_as_recent u v" if "last_activity_date v = None" for u v
    using that by (simp add: at_least_as_recent_def)
  moreover have "last_activity_date crmA = None" "last_activity_date crmA2 = None"
    by (simp_all add: crmA_def crmA2_def)
  ultimately have mr: "most_recent [crmA, crmA2] = [crmA, crmA2]"
    by (simp add: most_recent_def)
  have a: "match_tx no_name_match no_name_match [crmA, crmA2, crmB] txT1 = Ambiguous Certain"
    by (simp add: match_tx_def strategy_chain_def exact_T1 resolve_def mr)
  then have b:
    "matched_user_id (assign_match no_name_match no_name_match [crmA, crmA2, crmB] txT1) = None"
    by (simp add: assign_match_def matched_id_def)
  have g: "gross_revenue [txT1] = 20"
    by (simp add: gross_revenue_def txT1_def)
  have ut: "user_total no_name_match no_name_match [crmA, crmA2, crmB] [txT1] uid = 0" for uid
    by (simp add: user_total_def b)
  show ?thesis
    by (simp add: a b exact_T1 g ut)
qed

text \<open>
  Claim C3, amended. When the user records with an exact email match to a transaction
  have a single most recently active member \<open>u\<close> (in particular when \<open>u\<close> is the only
  such record), the match is certain, \<open>matched_user_id\<close> is the id of \<open>u\<close> and the
  amount is added to the total of \<open>u\<close>. When no user record matches at any tier, the
  transaction is unmatched, \<open>matched_user_id\<close> is absent, and the amount is added to
  the gross revenue total and to no user's total. Here \<open>pre @ tx # post\<close> is the list
  of transactions with \<open>tx\<close> in it and \<open>pre @ post\<close> the list without.
\<close>

theorem matcher_contributions:
  "(most_recent (filter (exact_email_match tx) users) = [u] \<longrightarrow>
      match_tx nm pm users tx = Matched (user_id u) Certain \<and>
      matched_user_id (assign_match nm pm users tx) = Some (user_id u) \<and>
      user_total nm pm users (pre @ tx # post) (user_id u) =
        amount tx + user_total nm pm users (pre @ post) (user_id u)) \<and>
   ((\<forall>v \<in> set users. \<not> exact_email_match tx v \<and> \<not> nm tx v \<and> \<not> pm tx v) \<longrightarrow>
      match_tx nm pm users tx = Unmatched \<and>
      matched_user_id (assign_match nm pm users tx) = None \<and>
      gross_revenue (pre @ tx # post) = amount tx + gross_revenue (pre @ post) \<and>
      (\<forall>uid. user_total nm pm users (pre @ tx # post) uid =
              user_total nm pm users (pre @ post) uid))"
  by (auto simp: match_exact match_none assign_match_def matched_id_def user_total_def
      gross_revenue_def)

theorem matcher_contributions_witness:
  "most_recent (filter (exact_email_match txT1) [crmA, crmB, crmC]) = [crmA] \<and>
   match_tx no_name_match no_name_match [crmA, crmB, crmC] txT1 = Matched 1 Certain \<and>
   user_total no_name_match no_name_match [crmA, crmB, crmC] [txT1, txT2] 1 = 20 \<and>
   match_tx no_name_match no_name_match [crmA, crmB, crmC] txT2 = Unmatched \<and>
   gross_revenue [txT1, txT2] = 35 \<and>
   user_total no_name_match no_name_match [crmA, crmB, crmC] [txT1, txT2] 2 = 0"
proof -
  let ?users = "[crmA, crmB, crmC]"
  have "filter (exact_email_match txT1) ?users = [crmA]"
    by (simp add: exact_T1)
  then have m: "most_recent (filter (exact_email_match txT1) ?users) = [crmA]"
    by (simp add: most_recent_singleton)
  have n: "\<forall>v \<in> set ?users. \<not> exact_email_match txT2 v \<and> \<not> no_name_match txT2 v \<and>
             \<not> no_name_match txT2 v"
    by (simp add: exact_T2 no_name_match_def)
  have id: "user_id crmA = 1" "amount txT1 = 20" "amount txT2 = 15"
    by (simp_all add: crmA_def txT1_def txT2_def)
  from matcher_contributions [of txT1 ?users crmA no_name_match no_name_match "[]" "[txT2]"] m
  have a: "match_tx no_name_match no_name_match ?users txT1 = Matched 1 Certain"
    and b: "user_total no_name_match no_name_match ?users [txT1, txT2] 1 =
              20 + user_total no_name_match no_name_match ?users [txT2] 1"
    by (simp_all add: id)
  from matcher_contributions [of txT2 ?users crmA no_name_match no_name_match "[]" "[]"] n
  have c: "match_tx no_name_match no_name_match ?users txT2 = Unmatched"
    and d: "\<forall>uid. user_total no_name_match no_name_match ?users [txT2] uid =
              user_total no_name_match no_name_match ?users [] uid"
    by simp_all
  from matcher_contributions [of txT2 ?users crmA no_name_match no_name_match "[txT1]" "[]"] n
  have e: "gross_revenue [txT1, txT2] = 15 + gross_revenue [txT1]"
    and f: "\<forall>uid. user_total no_name_match no_name_match ?users [txT1, txT2] uid =
              user_total no_name_match no_name_match ?users [txT1] uid"
    by (simp_all add: id)
  have g: "gross_revenue [txT1] = 20"
    by (simp add: gross_revenue_def id)
  have h: "user_total no_name_match no_name_match ?users [txT1] 2 = 0"
    by (simp add: user_total_def assign_match_def a matched_id_def)
  have e0: "user_total no_name_match no_name_match ?users [] 1 = 0"
    by (simp add: user_total_def)
  show ?thesis
    using m a b c d e f g h e0 by simp
qed

section \<open>Cohort retention at offset 0\<close>







end
